theory Spec2Isabelle
  imports Complex_Main
begin

section \<open>Floating-point values as the element-stiffness module sees them\<close>

text \<open>
  The module \<open>element_stiffness\<close> computes with numpy double-precision scalars; the
  coordinates are two-element arrays of finite doubles.  The embedding idealises the
  finite doubles as real numbers (no rounding, no overflow or underflow, no signed zero)
  and keeps the three special values that a division by a zero length produces.
  numpy's scalar division by zero does not raise: it yields an infinity or a NaN (and a
  warning), which is why the quotient is total here and has no error branch.

  Because of the idealisation, only statements whose truth does not rest on exact
  arithmetic are proved about the routines: the layout of the beam computation, stated
  in the routine's own operations; two instances in which every operation is exact in
  doubles; the zero-length case; and the invariance under a common translation, where
  the routines see the same coordinate differences (that the results for distinct
  endpoints are finite, stated alongside, is a fact of the idealised arithmetic).
  Properties that hold of the returned doubles only up to rounding are not stated.
\<close>

datatype fval = Fin real | PInf | NInf | NaN

fun fneg :: "fval \<Rightarrow> fval" where
  "fneg (Fin a) = Fin (- a)"
| "fneg PInf = NInf"
| "fneg NInf = PInf"
| "fneg NaN = NaN"

fun fadd :: "fval \<Rightarrow> fval \<Rightarrow> fval" where
  "fadd (Fin a) (Fin b) = Fin (a + b)"
| "fadd NaN y = NaN"
| "fadd x NaN = NaN"
| "fadd PInf NInf = NaN"
| "fadd NInf PInf = NaN"
| "fadd PInf y = PInf"
| "fadd NInf y = NInf"
| "fadd x PInf = PInf"
| "fadd x NInf = NInf"

definition fsub :: "fval \<Rightarrow> fval \<Rightarrow> fval" where
  "fsub x y = fadd x (fneg y)"

text \<open>The sign of an infinite product or quotient: \<open>True\<close> for a positive result.\<close>

definition inf_of_sign :: "bool \<Rightarrow> fval" where
  "inf_of_sign pos = (if pos then PInf else NInf)"

fun fmul :: "fval \<Rightarrow> fval \<Rightarrow> fval" where
  "fmul (Fin a) (Fin b) = Fin (a * b)"
| "fmul NaN y = NaN"
| "fmul x NaN = NaN"
| "fmul PInf (Fin b) = (if b = 0 then NaN else inf_of_sign (0 < b))"
| "fmul NInf (Fin b) = (if b = 0 then NaN else inf_of_sign (b < 0))"
| "fmul (Fin a) PInf = (if a = 0 then NaN else inf_of_sign (0 < a))"
| "fmul (Fin a) NInf = (if a = 0 then NaN else inf_of_sign (a < 0))"
| "fmul PInf PInf = PInf"
| "fmul NInf NInf = PInf"
| "fmul PInf NInf = NInf"
| "fmul NInf PInf = NInf"

text \<open>
  Division.  A finite value divided by zero is NaN for \<open>0 / 0\<close> and an infinity of
  the sign of the numerator otherwise (the only divisor of the module is a Euclidean
  norm, whose zero is the positive zero).
\<close>

fun fdiv :: "fval \<Rightarrow> fval \<Rightarrow> fval" where
  "fdiv (Fin a) (Fin b) =
     (if b = 0 then (if a = 0 then NaN else inf_of_sign (0 < a)) else Fin (a / b))"
| "fdiv NaN y = NaN"
| "fdiv x NaN = NaN"
| "fdiv (Fin a) PInf = Fin 0"
| "fdiv (Fin a) NInf = Fin 0"
| "fdiv PInf (Fin b) = inf_of_sign (0 \<le> b)"
| "fdiv NInf (Fin b) = inf_of_sign (b < 0)"
| "fdiv PInf PInf = NaN"
| "fdiv PInf NInf = NaN"
| "fdiv NInf PInf = NaN"
| "fdiv NInf NInf = NaN"

text \<open>\<open>x ** n\<close> for the literal integer exponents 2 and 3 of the module.\<close>

primrec fpow :: "fval \<Rightarrow> nat \<Rightarrow> fval" where
  "fpow x 0 = Fin 1"
| "fpow x (Suc n) = fmul x (fpow x n)"

text \<open>
  \<open>numpy.arctan2 y x\<close> on finite arguments: the angle of the point \<open>(x, y)\<close>, with
  \<open>arctan2 0 0 = 0\<close>.
\<close>

definition arctan2 :: "real \<Rightarrow> real \<Rightarrow> real" where
  "arctan2 y x =
     (if 0 < x then arctan (y / x)
      else if x < 0 then (if 0 \<le> y then arctan (y / x) + pi else arctan (y / x) - pi)
      else if 0 < y then pi / 2
      else if y < 0 then - (pi / 2)
      else 0)"

text \<open>The same on the extended values: a NaN argument gives NaN.\<close>

fun farctan2 :: "fval \<Rightarrow> fval \<Rightarrow> fval" where
  "farctan2 (Fin y) (Fin x) = Fin (arctan2 y x)"
| "farctan2 NaN x = NaN"
| "farctan2 y NaN = NaN"
| "farctan2 (Fin y) PInf = Fin 0"
| "farctan2 (Fin y) NInf = Fin (if 0 \<le> y then pi else - pi)"
| "farctan2 PInf (Fin x) = Fin (pi / 2)"
| "farctan2 NInf (Fin x) = Fin (- (pi / 2))"
| "farctan2 PInf PInf = Fin (pi / 4)"
| "farctan2 NInf PInf = Fin (- (pi / 4))"
| "farctan2 PInf NInf = Fin (3 * pi / 4)"
| "farctan2 NInf NInf = Fin (- (3 * pi / 4))"

section \<open>Arrays\<close>

text \<open>
  A coordinate is a two-element array, a matrix is a list of rows.  \<open>numpy.linalg.norm\<close>
  of a finite two-element array is its Euclidean length.
\<close>

type_synonym coord = "real \<times> real"
type_synonym fmat = "fval list list"
type_synonym rmat = "real list list"

definition norm2 :: "coord \<Rightarrow> fval" where
  "norm2 v = Fin (sqrt ((fst v)\<^sup>2 + (snd v)\<^sup>2))"

definition coord_sub :: "coord \<Rightarrow> coord \<Rightarrow> coord" where
  "coord_sub a b = (fst a - fst b, snd a - snd b)"

definition coord_add :: "coord \<Rightarrow> coord \<Rightarrow> coord" where
  "coord_add a b = (fst a + fst b, snd a + snd b)"

definition fscale :: "fval \<Rightarrow> fmat \<Rightarrow> fmat" where
  "fscale k M = map (map (fmul k)) M"

primrec fdot :: "fval list \<Rightarrow> fval list \<Rightarrow> fval" where
  "fdot [] ys = Fin 0"
| "fdot (x # xs) ys = (case ys of [] \<Rightarrow> Fin 0 | y # ys' \<Rightarrow> fadd (fmul x y) (fdot xs ys'))"

definition fmatmul :: "fmat \<Rightarrow> fmat \<Rightarrow> fmat" where
  "fmatmul A B = map (\<lambda>r. map (fdot r) (transpose B)) A"

section \<open>The two element routines\<close>

text \<open>\<open>truss_2d_element(coord1, coord2, EA)\<close>, returning the pair \<open>(K, theta)\<close>.\<close>

definition truss_2d_element :: "coord \<Rightarrow> coord \<Rightarrow> real \<Rightarrow> fmat \<times> fval" where
  "truss_2d_element coord1 coord2 EA =
    (let L = norm2 (coord_sub coord2 coord1);
         x1 = Fin (fst coord1); y1 = Fin (snd coord1);
         x2 = Fin (fst coord2); y2 = Fin (snd coord2);
         c = fdiv (fsub x2 x1) L;
         s = fdiv (fsub y2 y1) L;
         theta = farctan2 s c;
         K = fscale (fdiv (Fin EA) L)
               [[fpow c 2, fmul c s, fneg (fpow c 2), fmul (fneg c) s],
                [fmul c s, fpow s 2, fmul (fneg c) s, fneg (fpow s 2)],
                [fneg (fpow c 2), fmul (fneg c) s, fpow c 2, fmul c s],
                [fmul (fneg c) s, fneg (fpow s 2), fmul c s, fpow s 2]]
     in (K, theta))"

text \<open>
  Modelled from the spec: the two negative integer constants of \<open>beam_2d_element\<close>'s
  local stiffness matrix.  The compiled module stores them as two distinct negative
  integers whose digits are not legible in the source file; the first multiplies
  \<open>EI / L ** 3\<close> and the second \<open>EI / L ** 2\<close>, and the spec's bending block gives the
  entries at those places as \<open>-12EI/L^3\<close> and \<open>-6EI/L^2\<close>.
\<close>

definition neg_const_cubic :: real where
  "neg_const_cubic = - 12"

definition neg_const_square :: real where
  "neg_const_square = - 6"

text \<open>\<open>beam_2d_element(coord1, coord2, EA, EI)\<close>, returning the pair \<open>(K, theta)\<close>.\<close>

definition beam_2d_element :: "coord \<Rightarrow> coord \<Rightarrow> real \<Rightarrow> real \<Rightarrow> fmat \<times> fval" where
  "beam_2d_element coord1 coord2 EA EI =
    (let L = norm2 (coord_sub coord2 coord1);
         x1 = Fin (fst coord1); y1 = Fin (snd coord1);
         x2 = Fin (fst coord2); y2 = Fin (snd coord2);
         c = fdiv (fsub x2 x1) L;
         s = fdiv (fsub y2 y1) L;
         theta = farctan2 s c;
         K_local =
           [[fdiv (Fin EA) L, Fin 0, Fin 0, fdiv (fneg (Fin EA)) L, Fin 0, Fin 0],
            [Fin 0, fdiv (fmul (Fin 12) (Fin EI)) (fpow L 3),
                    fdiv (fmul (Fin 6) (Fin EI)) (fpow L 2),
             Fin 0, fdiv (fmul (Fin neg_const_cubic) (Fin EI)) (fpow L 3),
                    fdiv (fmul (Fin 6) (Fin EI)) (fpow L 2)],
            [Fin 0, fdiv (fmul (Fin 6) (Fin EI)) (fpow L 2),
                    fdiv (fmul (Fin 4) (Fin EI)) L,
             Fin 0, fdiv (fmul (Fin neg_const_square) (Fin EI)) (fpow L 2),
                    fdiv (fmul (Fin 2) (Fin EI)) L],
            [fdiv (fneg (Fin EA)) L, Fin 0, Fin 0, fdiv (Fin EA) L, Fin 0, Fin 0],
            [Fin 0, fdiv (fmul (Fin neg_const_cubic) (Fin EI)) (fpow L 3),
                    fdiv (fmul (Fin neg_const_square) (Fin EI)) (fpow L 2),
             Fin 0, fdiv (fmul (Fin 12) (Fin EI)) (fpow L 3),
                    fdiv (fmul (Fin neg_const_square) (Fin EI)) (fpow L 2)],
            [Fin 0, fdiv (fmul (Fin 6) (Fin EI)) (fpow L 2),
                    fdiv (fmul (Fin 2) (Fin EI)) L,
             Fin 0, fdiv (fmul (Fin neg_const_square) (Fin EI)) (fpow L 2),
                    fdiv (fmul (Fin 4) (Fin EI)) L]];
         T_gl_to_loc =
           [[c, s, Fin 0, Fin 0, Fin 0, Fin 0],
            [fneg s, c, Fin 0, Fin 0, Fin 0, Fin 0],
            [Fin 0, Fin 0, Fin 1, Fin 0, Fin 0, Fin 0],
            [Fin 0, Fin 0, Fin 0, c, s, Fin 0],
            [Fin 0, Fin 0, Fin 0, fneg s, c, Fin 0],
            [Fin 0, Fin 0, Fin 0, Fin 0, Fin 0, Fin 1]];
         K = fmatmul (fmatmul (transpose T_gl_to_loc) K_local) T_gl_to_loc
     in (K, theta))"

section \<open>The beam matrix in the spec's words\<close>

text \<open>
  The spec describes the beam result as \<open>T\<^sup>T K_local T\<close>: a bending block placed in rows and
  columns 1, 2, 4, 5 of a 6-by-6 zero matrix, an axial block placed in rows and columns
  0, 3, and a block-diagonal \<open>T\<close> made of two copies of a per-node block.  The following
  definitions build these matrices that way, in the arithmetic of the routine: every
  entry is formed with the same quotients, products and powers the routine uses, so the
  comparison with the routine does not depend on how these operations round.
\<close>

fun pos_of :: "nat \<Rightarrow> nat list \<Rightarrow> nat option" where
  "pos_of i [] = None"
| "pos_of i (j # js) = (if i = j then Some 0 else map_option Suc (pos_of i js))"

text \<open>\<open>embed idx B M\<close> overwrites the rows and columns \<open>idx\<close> of \<open>M\<close> with the block \<open>B\<close>.\<close>

definition embed :: "nat list \<Rightarrow> 'a list list \<Rightarrow> 'a list list \<Rightarrow> 'a list list" where
  "embed idx B M =
     map (\<lambda>i. map (\<lambda>j. case (pos_of i idx, pos_of j idx) of
                          (Some a, Some b) \<Rightarrow> B ! a ! b
                        | _ \<Rightarrow> M ! i ! j) [0..<length (M ! i)]) [0..<length M]"

definition block_diag :: "'a \<Rightarrow> 'a list list \<Rightarrow> 'a list list \<Rightarrow> 'a list list" where
  "block_diag z A B =
     map (\<lambda>r. r @ replicate (length (hd B)) z) A @ map (\<lambda>r. replicate (length (hd A)) z @ r) B"

text \<open>
  The Euler-Bernoulli bending block: the four magnitudes \<open>12EI/L^3\<close>, \<open>6EI/L^2\<close>, \<open>4EI/L\<close>,
  \<open>2EI/L\<close> in the classical sign pattern.
\<close>

definition bend_block :: "real \<Rightarrow> fval \<Rightarrow> fmat" where
  "bend_block EI L =
     (let p = fdiv (fmul (Fin 12) (Fin EI)) (fpow L 3);
          q = fdiv (fmul (Fin 6) (Fin EI)) (fpow L 2);
          r = fdiv (fmul (Fin 4) (Fin EI)) L;
          t = fdiv (fmul (Fin 2) (Fin EI)) L
      in [[p, q, fneg p, q],
          [q, r, fneg q, t],
          [fneg p, fneg q, p, fneg q],
          [q, t, fneg q, r]])"

definition axial_block :: "real \<Rightarrow> fval \<Rightarrow> fmat" where
  "axial_block EA L = fscale (fdiv (Fin EA) L) [[Fin 1, Fin (- 1)], [Fin (- 1), Fin 1]]"

definition K_local_spec :: "real \<Rightarrow> real \<Rightarrow> fval \<Rightarrow> fmat" where
  "K_local_spec EA EI L =
     embed [0, 3] (axial_block EA L)
       (embed [1, 2, 4, 5] (bend_block EI L) (replicate 6 (replicate 6 (Fin 0))))"

definition node_block :: "fval \<Rightarrow> fval \<Rightarrow> fmat" where
  "node_block c s = [[c, s, Fin 0], [fneg s, c, Fin 0], [Fin 0, Fin 0, Fin 1]]"

definition T_spec :: "fval \<Rightarrow> fval \<Rightarrow> fmat" where
  "T_spec c s = block_diag (Fin 0) (node_block c s) (node_block c s)"

section \<open>The real matrices behind finite results\<close>

text \<open>
  Where no division by zero occurs every entry of a result is \<open>Fin\<close> of a real number.
  The following definitions name these real matrices in the idealised arithmetic.
\<close>

definition fin_mat :: "rmat \<Rightarrow> fmat" where
  "fin_mat M = map (map Fin) M"

primrec rdot :: "real list \<Rightarrow> real list \<Rightarrow> real" where
  "rdot [] ys = 0"
| "rdot (x # xs) ys = (case ys of [] \<Rightarrow> 0 | y # ys' \<Rightarrow> x * y + rdot xs ys')"

definition rmatmul :: "rmat \<Rightarrow> rmat \<Rightarrow> rmat" where
  "rmatmul A B = map (\<lambda>r. map (rdot r) (transpose B)) A"

definition rscale :: "real \<Rightarrow> rmat \<Rightarrow> rmat" where
  "rscale k M = map (map (\<lambda>a. k * a)) M"

definition outer :: "real list \<Rightarrow> real list \<Rightarrow> rmat" where
  "outer u v = map (\<lambda>a. map (\<lambda>b. a * b) v) u"

definition elem_len :: "coord \<Rightarrow> coord \<Rightarrow> real" where
  "elem_len coord1 coord2 = sqrt ((fst coord2 - fst coord1)\<^sup>2 + (snd coord2 - snd coord1)\<^sup>2)"

definition dir_cos :: "coord \<Rightarrow> coord \<Rightarrow> real" where
  "dir_cos coord1 coord2 = (fst coord2 - fst coord1) / elem_len coord1 coord2"

definition dir_sin :: "coord \<Rightarrow> coord \<Rightarrow> real" where
  "dir_sin coord1 coord2 = (snd coord2 - snd coord1) / elem_len coord1 coord2"

definition dir_vec :: "coord \<Rightarrow> coord \<Rightarrow> real list" where
  "dir_vec coord1 coord2 =
     [dir_cos coord1 coord2, dir_sin coord1 coord2, - dir_cos coord1 coord2, - dir_sin coord1 coord2]"

definition truss_K_real :: "coord \<Rightarrow> coord \<Rightarrow> real \<Rightarrow> rmat" where
  "truss_K_real coord1 coord2 EA =
     rscale (EA / elem_len coord1 coord2) (outer (dir_vec coord1 coord2) (dir_vec coord1 coord2))"

definition K_local_real :: "real \<Rightarrow> real \<Rightarrow> real \<Rightarrow> rmat" where
  "K_local_real EA EI L =
     [[EA / L, 0, 0, - EA / L, 0, 0],
      [0, 12 * EI / L ^ 3, 6 * EI / L ^ 2, 0, - 12 * EI / L ^ 3, 6 * EI / L ^ 2],
      [0, 6 * EI / L ^ 2, 4 * EI / L, 0, - 6 * EI / L ^ 2, 2 * EI / L],
      [- EA / L, 0, 0, EA / L, 0, 0],
      [0, - 12 * EI / L ^ 3, - 6 * EI / L ^ 2, 0, 12 * EI / L ^ 3, - 6 * EI / L ^ 2],
      [0, 6 * EI / L ^ 2, 2 * EI / L, 0, - 6 * EI / L ^ 2, 4 * EI / L]]"

definition T_real :: "real \<Rightarrow> real \<Rightarrow> rmat" where
  "T_real c s =
     [[c, s, 0, 0, 0, 0],
      [- s, c, 0, 0, 0, 0],
      [0, 0, 1, 0, 0, 0],
      [0, 0, 0, c, s, 0],
      [0, 0, 0, - s, c, 0],
      [0, 0, 0, 0, 0, 1]]"

definition beam_K_real :: "coord \<Rightarrow> coord \<Rightarrow> real \<Rightarrow> real \<Rightarrow> rmat" where
  "beam_K_real coord1 coord2 EA EI =
     (let L = elem_len coord1 coord2;
          T = T_real (dir_cos coord1 coord2) (dir_sin coord1 coord2)
      in rmatmul (rmatmul (transpose T) (K_local_real EA EI L)) T)"

section \<open>Auxiliary facts\<close>

lemma elem_len_pos: "coord1 \<noteq> coord2 \<Longrightarrow> 0 < elem_len coord1 coord2"
proof -
  assume h: "coord1 \<noteq> coord2"
  have "fst coord2 - fst coord1 \<noteq> 0 \<or> snd coord2 - snd coord1 \<noteq> 0"
    using h by (auto simp: prod_eq_iff)
  then have "0 < (fst coord2 - fst coord1)\<^sup>2 + (snd coord2 - snd coord1)\<^sup>2"
    by (auto simp: sum_power2_gt_zero_iff)
  then show ?thesis by (simp add: elem_len_def)
qed

lemma norm2_elem_len: "norm2 (coord_sub coord2 coord1) = Fin (elem_len coord1 coord2)"
  by (simp add: norm2_def coord_sub_def elem_len_def)

lemma fpow_Fin: "fpow (Fin a) n = Fin (a ^ n)"
  by (induction n) simp_all

lemma fdot_fin: "fdot (map Fin xs) (map Fin ys) = Fin (rdot xs ys)"
  by (induction xs arbitrary: ys) (auto split: list.splits)

lemma transpose_fin: "transpose (fin_mat M) = fin_mat (transpose M)"
  by (simp add: fin_mat_def transpose_map_map)

lemma fmatmul_fin: "fmatmul (fin_mat A) (fin_mat B) = fin_mat (rmatmul A B)"
  by (simp add: fmatmul_def rmatmul_def fin_mat_def transpose_map_map fdot_fin)

lemma arctan2_scale: "0 < k \<Longrightarrow> arctan2 (y / k) (x / k) = arctan2 y x"
  by (simp add: arctan2_def zero_less_divide_iff divide_less_0_iff zero_le_divide_iff)

lemma truss_closed:
  assumes "coord1 \<noteq> coord2"
  shows "truss_2d_element coord1 coord2 EA =
     (fin_mat (truss_K_real coord1 coord2 EA),
      Fin (arctan2 (snd coord2 - snd coord1) (fst coord2 - fst coord1)))"
proof -
  have L: "0 < elem_len coord1 coord2" using assms by (rule elem_len_pos)
  show ?thesis
    using L arctan2_scale[OF L]
    by (simp add: truss_2d_element_def norm2_elem_len Let_def fsub_def fpow_Fin fscale_def
        truss_K_real_def fin_mat_def rscale_def outer_def dir_vec_def dir_cos_def dir_sin_def power2_eq_square
        mult_ac)
qed

lemma truss_deg: "truss_2d_element p p EA = (replicate 4 (replicate 4 NaN), NaN)"
  by (simp add: truss_2d_element_def norm2_def coord_sub_def fsub_def fscale_def numeral_eq_Suc Let_def inf_of_sign_def)

lemma upt6: "[0..<6] = [0,1,2,3,4,5]"
  by (simp add: upt_rec)

lemma beam_local_code:
  assumes L: "0 < L"
  shows "[[fdiv (Fin EA) (Fin L), Fin 0, Fin 0, fdiv (fneg (Fin EA)) (Fin L), Fin 0, Fin 0],
            [Fin 0, fdiv (fmul (Fin 12) (Fin EI)) (fpow (Fin L) 3),
                    fdiv (fmul (Fin 6) (Fin EI)) (fpow (Fin L) 2),
             Fin 0, fdiv (fmul (Fin neg_const_cubic) (Fin EI)) (fpow (Fin L) 3),
                    fdiv (fmul (Fin 6) (Fin EI)) (fpow (Fin L) 2)],
            [Fin 0, fdiv (fmul (Fin 6) (Fin EI)) (fpow (Fin L) 2),
                    fdiv (fmul (Fin 4) (Fin EI)) (Fin L),
             Fin 0, fdiv (fmul (Fin neg_const_square) (Fin EI)) (fpow (Fin L) 2),
                    fdiv (fmul (Fin 2) (Fin EI)) (Fin L)],
            [fdiv (fneg (Fin EA)) (Fin L), Fin 0, Fin 0, fdiv (Fin EA) (Fin L), Fin 0, Fin 0],
            [Fin 0, fdiv (fmul (Fin neg_const_cubic) (Fin EI)) (fpow (Fin L) 3),
                    fdiv (fmul (Fin neg_const_square) (Fin EI)) (fpow (Fin L) 2),
             Fin 0, fdiv (fmul (Fin 12) (Fin EI)) (fpow (Fin L) 3),
                    fdiv (fmul (Fin neg_const_square) (Fin EI)) (fpow (Fin L) 2)],
            [Fin 0, fdiv (fmul (Fin 6) (Fin EI)) (fpow (Fin L) 2),
                    fdiv (fmul (Fin 2) (Fin EI)) (Fin L),
             Fin 0, fdiv (fmul (Fin neg_const_square) (Fin EI)) (fpow (Fin L) 2),
                    fdiv (fmul (Fin 4) (Fin EI)) (Fin L)]] = fin_mat (K_local_real EA EI L)"
  using L by (simp add: K_local_real_def fin_mat_def fpow_Fin neg_const_cubic_def neg_const_square_def)

lemma beam_T_code:
  "[[Fin c, Fin s, Fin 0, Fin 0, Fin 0, Fin 0],
            [fneg (Fin s), Fin c, Fin 0, Fin 0, Fin 0, Fin 0],
            [Fin 0, Fin 0, Fin 1, Fin 0, Fin 0, Fin 0],
            [Fin 0, Fin 0, Fin 0, Fin c, Fin s, Fin 0],
            [Fin 0, Fin 0, Fin 0, fneg (Fin s), Fin c, Fin 0],
            [Fin 0, Fin 0, Fin 0, Fin 0, Fin 0, Fin 1]] = fin_mat (T_real c s)"
  by (simp add: T_real_def fin_mat_def)

lemma beam_closed:
  assumes "coord1 \<noteq> coord2"
  shows "beam_2d_element coord1 coord2 EA EI =
     (fin_mat (beam_K_real coord1 coord2 EA EI),
      Fin (arctan2 (snd coord2 - snd coord1) (fst coord2 - fst coord1)))"
proof -
  have L: "0 < elem_len coord1 coord2" using assms by (rule elem_len_pos)
  have c: "fdiv (fsub (Fin (fst coord2)) (Fin (fst coord1))) (Fin (elem_len coord1 coord2)) = Fin (dir_cos coord1 coord2)"
    using L by (simp add: fsub_def dir_cos_def)
  have s: "fdiv (fsub (Fin (snd coord2)) (Fin (snd coord1))) (Fin (elem_len coord1 coord2)) = Fin (dir_sin coord1 coord2)"
    using L by (simp add: fsub_def dir_sin_def)
  have th: "arctan2 (dir_sin coord1 coord2) (dir_cos coord1 coord2) = arctan2 (snd coord2 - snd coord1) (fst coord2 - fst coord1)"
    unfolding dir_sin_def dir_cos_def by (rule arctan2_scale[OF L])
  show ?thesis
    unfolding beam_2d_element_def norm2_elem_len Let_def c s beam_local_code[OF L] beam_T_code
      transpose_fin fmatmul_fin beam_K_real_def
    by (simp add: th)
qed

lemma truss_translate: "truss_2d_element (coord_add coord1 t) (coord_add coord2 t) EA = truss_2d_element coord1 coord2 EA"
  by (simp add: truss_2d_element_def coord_add_def coord_sub_def fsub_def)

lemma beam_translate: "beam_2d_element (coord_add coord1 t) (coord_add coord2 t) EA EI = beam_2d_element coord1 coord2 EA EI"
  by (simp add: beam_2d_element_def coord_add_def coord_sub_def fsub_def)

lemma fmul_one: "fmul k (Fin 1) = k"
  by (cases k) (simp_all add: inf_of_sign_def)

lemma fmul_minus_one: "fmul k (Fin (- 1)) = fneg k"
  by (cases k) (simp_all add: inf_of_sign_def)

lemma fdiv_fneg: "fdiv (fneg a) b = fneg (fdiv a b)"
  by (cases a; cases b) (auto simp: inf_of_sign_def)

lemma fdiv_Fin_minus: "fdiv (Fin (- a)) b = fneg (fdiv (Fin a) b)"
  using fdiv_fneg[of "Fin a" b] by simp

lemma K_local_spec_entries:
  "K_local_spec EA EI L =
     [[fdiv (Fin EA) L, Fin 0, Fin 0, fdiv (fneg (Fin EA)) L, Fin 0, Fin 0],
      [Fin 0, fdiv (fmul (Fin 12) (Fin EI)) (fpow L 3),
              fdiv (fmul (Fin 6) (Fin EI)) (fpow L 2),
       Fin 0, fdiv (fmul (Fin neg_const_cubic) (Fin EI)) (fpow L 3),
              fdiv (fmul (Fin 6) (Fin EI)) (fpow L 2)],
      [Fin 0, fdiv (fmul (Fin 6) (Fin EI)) (fpow L 2),
              fdiv (fmul (Fin 4) (Fin EI)) L,
       Fin 0, fdiv (fmul (Fin neg_const_square) (Fin EI)) (fpow L 2),
              fdiv (fmul (Fin 2) (Fin EI)) L],
      [fdiv (fneg (Fin EA)) L, Fin 0, Fin 0, fdiv (Fin EA) L, Fin 0, Fin 0],
      [Fin 0, fdiv (fmul (Fin neg_const_cubic) (Fin EI)) (fpow L 3),
              fdiv (fmul (Fin neg_const_square) (Fin EI)) (fpow L 2),
       Fin 0, fdiv (fmul (Fin 12) (Fin EI)) (fpow L 3),
              fdiv (fmul (Fin neg_const_square) (Fin EI)) (fpow L 2)],
      [Fin 0, fdiv (fmul (Fin 6) (Fin EI)) (fpow L 2),
              fdiv (fmul (Fin 2) (Fin EI)) L,
       Fin 0, fdiv (fmul (Fin neg_const_square) (Fin EI)) (fpow L 2),
              fdiv (fmul (Fin 4) (Fin EI)) L]]"
  by (simp add: K_local_spec_def embed_def upt6 bend_block_def axial_block_def fscale_def Let_def
      numeral_eq_Suc fmul_one fmul_minus_one fdiv_fneg fdiv_Fin_minus
      neg_const_cubic_def neg_const_square_def)

lemma T_spec_entries:
  "T_spec c s =
     [[c, s, Fin 0, Fin 0, Fin 0, Fin 0],
      [fneg s, c, Fin 0, Fin 0, Fin 0, Fin 0],
      [Fin 0, Fin 0, Fin 1, Fin 0, Fin 0, Fin 0],
      [Fin 0, Fin 0, Fin 0, c, s, Fin 0],
      [Fin 0, Fin 0, Fin 0, fneg s, c, Fin 0],
      [Fin 0, Fin 0, Fin 0, Fin 0, Fin 0, Fin 1]]"
  by (simp add: T_spec_def block_diag_def node_block_def numeral_eq_Suc)

section \<open>The claims\<close>

text \<open>
  C2.  For all endpoints (distinct ones in particular) and all \<open>EA\<close>, \<open>EI\<close>,
  \<open>beam_2d_element\<close> returns the pair \<open>(T\<^sup>T K_local T, theta)\<close>, where \<open>K_local\<close> has the
  Euler-Bernoulli bending block in rows and columns 1, 2, 4, 5 and the axial block
  \<open>(EA/L) [[1, -1], [-1, 1]]\<close> in rows and columns 0, 3, and \<open>T\<close> is block-diagonal with two
  copies of the per-node block \<open>[[c, s, 0], [-s, c, 0], [0, 0, 1]]\<close>.  Length, direction
  cosines, matrix entries and the two products are those the routine computes.
\<close>

theorem beam_formula:
  "beam_2d_element coord1 coord2 EA EI =
     (let L = norm2 (coord_sub coord2 coord1);
          c = fdiv (fsub (Fin (fst coord2)) (Fin (fst coord1))) L;
          s = fdiv (fsub (Fin (snd coord2)) (Fin (snd coord1))) L;
          T = T_spec c s
      in (fmatmul (fmatmul (transpose T) (K_local_spec EA EI L)) T, farctan2 s c))"
  unfolding beam_2d_element_def Let_def K_local_spec_entries T_spec_entries
  by (rule refl)

text \<open>
  C3.  The unit horizontal element \<open>((0,0), (1,0))\<close> with \<open>EA = 1\<close> gives
  \<open>K = [[1,0,-1,0],[0,0,0,0],[-1,0,1,0],[0,0,0,0]]\<close> and \<open>theta = 0\<close>; the unit vertical
  element \<open>((0,0), (0,1))\<close> with \<open>EA = 1\<close> gives
  \<open>K = [[0,0,0,0],[0,1,0,-1],[0,0,0,0],[0,-1,0,1]]\<close> and \<open>theta = pi/2\<close>.
\<close>

theorem truss_unit_elements:
  "truss_2d_element (0, 0) (1, 0) 1 =
     ([[Fin 1, Fin 0, Fin (- 1), Fin 0],
       [Fin 0, Fin 0, Fin 0, Fin 0],
       [Fin (- 1), Fin 0, Fin 1, Fin 0],
       [Fin 0, Fin 0, Fin 0, Fin 0]], Fin 0)
   \<and> truss_2d_element (0, 0) (0, 1) 1 =
     ([[Fin 0, Fin 0, Fin 0, Fin 0],
       [Fin 0, Fin 1, Fin 0, Fin (- 1)],
       [Fin 0, Fin 0, Fin 0, Fin 0],
       [Fin 0, Fin (- 1), Fin 0, Fin 1]], Fin (pi / 2))"
  by (simp add: truss_2d_element_def norm2_def coord_sub_def fsub_def fscale_def fpow_Fin
      arctan2_def Let_def)

text \<open>
  C4, as stated: for \<open>coord1 = coord2\<close> the routine returns \<open>theta = 0\<close> and an all-zero
  matrix.  It does not: at \<open>coord1 = coord2 = (0, 0)\<close>, \<open>EA = 1\<close> the angle is not \<open>0\<close> and
  the matrix is not the zero matrix.
\<close>

theorem truss_zero_length_counterexample:
  "snd (truss_2d_element (0, 0) (0, 0) 1) \<noteq> Fin 0
   \<and> fst (truss_2d_element (0, 0) (0, 0) 1) \<noteq> replicate 4 (replicate 4 (Fin 0))"
  by (simp add: truss_deg numeral_eq_Suc)

text \<open>
  C4, amended: for \<open>coord1 = coord2\<close> the routine raises nothing (the divisions by the
  zero length yield NaN or an infinity) and returns \<open>theta = NaN\<close> and a 4-by-4 matrix
  whose entries are all NaN.
\<close>

theorem truss_zero_length_nan:
  "snd (truss_2d_element p p EA) = NaN
   \<and> fst (truss_2d_element p p EA) = replicate 4 (replicate 4 NaN)
   \<and> fdiv (fsub (Fin (fst p)) (Fin (fst p))) (norm2 (coord_sub p p)) = NaN"
  by (simp add: truss_deg norm2_def coord_sub_def fsub_def)

text \<open>
  C9.  For every offset \<open>t\<close> and distinct endpoints, \<open>truss_2d_element\<close> and
  \<open>beam_2d_element\<close> return the same stiffness matrix for the translated endpoints
  \<open>coord1 + t\<close>, \<open>coord2 + t\<close> as for \<open>coord1\<close>, \<open>coord2\<close>.
\<close>

theorem translation_invariance:
  assumes "coord1 \<noteq> coord2"
  shows "fst (truss_2d_element (coord_add coord1 t) (coord_add coord2 t) EA)
           = fst (truss_2d_element coord1 coord2 EA)
       \<and> fst (beam_2d_element (coord_add coord1 t) (coord_add coord2 t) EA EI)
           = fst (beam_2d_element coord1 coord2 EA EI)
       \<and> (\<exists>M. fst (truss_2d_element coord1 coord2 EA) = fin_mat M)
       \<and> (\<exists>M. fst (beam_2d_element coord1 coord2 EA EI) = fin_mat M)"
  using truss_closed[OF assms, of EA] beam_closed[OF assms, of EA EI]
  by (auto simp: truss_translate beam_translate)

theorem translation_invariance_witness:
  "((0, 0) :: coord) \<noteq> (3, 4)
   \<and> fst (truss_2d_element (coord_add (0, 0) (5, 6)) (coord_add (3, 4) (5, 6)) 10)
       = fst (truss_2d_element (0, 0) (3, 4) 10)
   \<and> fst (beam_2d_element (coord_add (0, 0) (5, 6)) (coord_add (3, 4) (5, 6)) 10 7)
       = fst (beam_2d_element (0, 0) (3, 4) 10 7)"
  using translation_invariance[of "(0, 0)" "(3, 4)" "(5, 6)" 10 7] by simp

end
